theory Spec2Isabelle
  imports Complex_Main
begin

section \<open>Python values, errors and tensors\<close>

text \<open>
  The module \<^verbatim>\<open>efficientdet/bifpn.py\<close> is written against TensorFlow/Keras. Exceptions
  are values: every function that can raise returns \<open>py_error + 'a\<close>, with \<open>Inl\<close> the
  exception. \<open>InvalidArgumentError\<close> stands for the errors TensorFlow raises from its
  kernels (shape mismatch, index out of bounds, wrong rank).
\<close>

datatype py_error = TypeError | IndexError | ValueError | RuntimeError | InvalidArgumentError

definition bind_e :: "'e + 'a \<Rightarrow> ('a \<Rightarrow> 'e + 'b) \<Rightarrow> 'e + 'b" where
  "bind_e m f = (case m of Inl e \<Rightarrow> Inl e | Inr x \<Rightarrow> f x)"

fun map_e :: "('a \<Rightarrow> 'e + 'b) \<Rightarrow> 'a list \<Rightarrow> 'e + 'b list" where
  "map_e f [] = Inr []"
| "map_e f (x # xs) =
     (case f x of
        Inl e \<Rightarrow> Inl e
      | Inr y \<Rightarrow> (case map_e f xs of Inl e \<Rightarrow> Inl e | Inr ys \<Rightarrow> Inr (y # ys)))"

text \<open>
  A \<^verbatim>\<open>tf.Tensor\<close> is its shape and its values in row-major order. A feature map has
  shape \<open>[BATCH, H, W, C]\<close>. Scalars are real numbers: rounding, overflow, infinities
  and NaN of \<^verbatim>\<open>float32\<close> are not modelled.
\<close>

record tensor =
  shape :: "nat list"
  vals :: "real list"

text \<open>
  A Keras layer whose parameters are fixed is a function on tensors that may raise.
  (Building a layer on its first call and the moving statistics that batch
  normalisation updates while training are not modelled.)
\<close>

type_synonym layer = "tensor \<Rightarrow> py_error + tensor"

text \<open>\<^verbatim>\<open>tf.image.resize(images, dims)\<close>, bilinear by default: a parameter of the model.\<close>

type_synonym image_resize = "tensor \<Rightarrow> nat list \<Rightarrow> py_error + tensor"

definition EPSILON :: real where
  "EPSILON = 1 / 100000"

text \<open>\<^verbatim>\<open>Activation('relu')\<close>, on a scalar, on the weight vector and on a tensor.\<close>

definition relu :: "real \<Rightarrow> real" where
  "relu x = max 0 x"

definition relu_t :: "tensor \<Rightarrow> tensor" where
  "relu_t t = t\<lparr>vals := map relu (vals t)\<rparr>"

text \<open>\<^verbatim>\<open>c * t\<close> and \<^verbatim>\<open>t / c\<close> for a scalar \<open>c\<close>; the sum of two tensors of one shape.\<close>

definition scalar_mul :: "real \<Rightarrow> tensor \<Rightarrow> tensor" where
  "scalar_mul c t = t\<lparr>vals := map (\<lambda>v. c * v) (vals t)\<rparr>"

definition scalar_div :: "tensor \<Rightarrow> real \<Rightarrow> tensor" where
  "scalar_div t c = t\<lparr>vals := map (\<lambda>v. v / c) (vals t)\<rparr>"

definition add_t :: "tensor \<Rightarrow> tensor \<Rightarrow> tensor" where
  "add_t a b = a\<lparr>vals := map2 (+) (vals a) (vals b)\<rparr>"

text \<open>
  \<^verbatim>\<open>tf.map_fn(fn, elems)\<close> in eager mode: \<open>fn\<close> runs on the elements in order, the
  first exception ends the call, and the results are stacked along a new first axis,
  which needs them to have one shape. The stacked tensor is the list of its slices
  along that axis.
\<close>

definition tf_map_fn :: "(nat \<Rightarrow> py_error + tensor) \<Rightarrow> nat list \<Rightarrow> py_error + tensor list" where
  "tf_map_fn fn elems =
     bind_e (map_e fn elems) (\<lambda>ys.
       case ys of
         [] \<Rightarrow> Inr []
       | y # rest \<Rightarrow>
           if list_all (\<lambda>u. shape u = shape y) rest then Inr ys
           else Inl InvalidArgumentError)"

text \<open>
  \<^verbatim>\<open>tf.reduce_sum(tf.transpose(stacked, [1, 0, 2, 3, 4]), axis=1)\<close>: the permutation
  has five entries, so the stacked tensor must have rank 5, that is, at least one
  slice, each of rank 4; swapping the first two axes and summing over the second is
  the sum of the slices.
\<close>

definition transpose_reduce_sum :: "tensor list \<Rightarrow> py_error + tensor" where
  "transpose_reduce_sum stacked =
     (case stacked of
        [] \<Rightarrow> Inl InvalidArgumentError
      | t # ts \<Rightarrow>
          if length (shape t) = 4 then Inr (foldl add_t t ts)
          else Inl InvalidArgumentError)"

section \<open>Resize\<close>

record Resize =
  pixel_wise :: layer

text \<open>
  \<^verbatim>\<open>Resize.call(images, target_dim)\<close>: \<^verbatim>\<open>target_dim[1:3]\<close> is a Python slice, which
  never raises.
\<close>

definition Resize_call :: "image_resize \<Rightarrow> Resize \<Rightarrow> tensor \<Rightarrow> nat list \<Rightarrow> py_error + tensor" where
  "Resize_call tf_image_resize self images target_dim =
     (let dims = take 2 (drop 1 target_dim) in
      bind_e (tf_image_resize images dims) (\<lambda>x. pixel_wise self x))"

section \<open>FastFusion\<close>

text \<open>
  The fields of a \<^verbatim>\<open>FastFusion\<close> instance. \<open>size_ff\<close> is \<^verbatim>\<open>self.size\<close> and \<open>w\<close> the
  value of the variable \<^verbatim>\<open>self.w\<close>; \<^verbatim>\<open>self.relu\<close> is the function \<open>relu\<close>.
\<close>

record FastFusion =
  size_ff :: nat
  w :: "real list"
  conv :: layer
  bn :: layer
  resize :: Resize

text \<open>\<^verbatim>\<open>w_sum = EPSILON + tf.reduce_sum(w)\<close> with \<^verbatim>\<open>w = self.relu(self.w)\<close>.\<close>

definition w_sum :: "FastFusion \<Rightarrow> real" where
  "w_sum self = EPSILON + sum_list (map relu (w self))"

text \<open>
  The function mapped over \<^verbatim>\<open>tf.range(self.size)\<close>: \<^verbatim>\<open>lambda i: w[i] * inputs[i]\<close>.
  \<^verbatim>\<open>w[i]\<close> is evaluated first and is out of bounds for TensorFlow when \<open>i\<close> is not an
  index of the weight vector; \<^verbatim>\<open>inputs[i]\<close> indexes a Python list.
\<close>

definition weighted :: "real list \<Rightarrow> tensor list \<Rightarrow> nat \<Rightarrow> py_error + tensor" where
  "weighted ws inputs i =
     (if length ws \<le> i then Inl InvalidArgumentError
      else if length inputs \<le> i then Inl IndexError
      else Inr (scalar_mul (ws ! i) (inputs ! i)))"

text \<open>
  The body of \<^verbatim>\<open>FastFusion.call\<close> after the first statement, on the list as that
  statement left it.
\<close>

definition fuse :: "FastFusion \<Rightarrow> tensor list \<Rightarrow> py_error + tensor" where
  "fuse self inputs =
     bind_e (tf_map_fn (weighted (map relu (w self)) inputs) [0..<size_ff self])
       (\<lambda>stacked.
     bind_e (transpose_reduce_sum stacked)
       (\<lambda>weighted_sum.
     bind_e (conv self (scalar_div weighted_sum (w_sum self)))
       (\<lambda>fusioned_features.
     bind_e (bn self fusioned_features)
       (\<lambda>fusioned_features. Inr (relu_t fusioned_features)))))"

text \<open>
  \<^verbatim>\<open>FastFusion.call(inputs)\<close>. The first statement,
  \<^verbatim>\<open>inputs[-1] = self.resize(inputs[-1], inputs[0].shape)\<close>, assigns into the caller's
  list, so the call returns the list as it leaves it together with the result.
  \<^verbatim>\<open>inputs[-1]\<close> raises on an empty list; when the resize raises, nothing has been
  assigned.
\<close>

definition FastFusion_call ::
  "image_resize \<Rightarrow> FastFusion \<Rightarrow> tensor list \<Rightarrow> tensor list \<times> (py_error + tensor)" where
  "FastFusion_call tf_image_resize self inputs =
     (if inputs = [] then (inputs, Inl IndexError)
      else
        case Resize_call tf_image_resize (resize self) (last inputs) (shape (inputs ! 0)) of
          Inl e \<Rightarrow> (inputs, Inl e)
        | Inr r \<Rightarrow>
            (let inputs' = inputs[length inputs - 1 := r]
             in (inputs', fuse self inputs')))"

text \<open>
  A unit applied to a list literal, as \<^verbatim>\<open>self.ff_6_td([P6, P7])\<close>: the list is not
  reachable afterwards, only the result is.
\<close>

definition FastFusion_apply :: "image_resize \<Rightarrow> FastFusion \<Rightarrow> tensor list \<Rightarrow> py_error + tensor" where
  "FastFusion_apply tf_image_resize self inputs = snd (FastFusion_call tf_image_resize self inputs)"

section \<open>BiFPNBlock\<close>

record BiFPNBlock =
  ff_6_td :: FastFusion
  ff_5_td :: FastFusion
  ff_4_td :: FastFusion
  ff_7_out :: FastFusion
  ff_6_out :: FastFusion
  ff_5_out :: FastFusion
  ff_4_out :: FastFusion
  ff_3_out :: FastFusion

text \<open>
  \<^verbatim>\<open>BiFPNBlock.call(inputs)\<close>. The unpacking \<^verbatim>\<open>P3, P4, P5, P6, P7 = inputs\<close> raises
  \<^verbatim>\<open>ValueError\<close> unless there are exactly five maps. The returned tuple is the list of
  its five components.
\<close>

definition BiFPNBlock_call :: "image_resize \<Rightarrow> BiFPNBlock \<Rightarrow> tensor list \<Rightarrow> py_error + tensor list" where
  "BiFPNBlock_call tf_image_resize self inputs =
     (case inputs of
        [P3, P4, P5, P6, P7] \<Rightarrow>
          bind_e (FastFusion_apply tf_image_resize (ff_6_td self) [P6, P7]) (\<lambda>P6_td.
          bind_e (FastFusion_apply tf_image_resize (ff_5_td self) [P5, P6_td]) (\<lambda>P5_td.
          bind_e (FastFusion_apply tf_image_resize (ff_4_td self) [P4, P5_td]) (\<lambda>P4_td.
          bind_e (FastFusion_apply tf_image_resize (ff_3_out self) [P3, P4_td]) (\<lambda>P3_out.
          bind_e (FastFusion_apply tf_image_resize (ff_4_out self) [P4, P4_td, P3_out]) (\<lambda>P4_out.
          bind_e (FastFusion_apply tf_image_resize (ff_5_out self) [P5, P5_td, P4_out]) (\<lambda>P5_out.
          bind_e (FastFusion_apply tf_image_resize (ff_6_out self) [P6, P6_td, P5_out]) (\<lambda>P6_out.
          bind_e (FastFusion_apply tf_image_resize (ff_7_out self) [P7, P6_td]) (\<lambda>P7_out.
          Inr [P3_out, P4_out, P5_out, P6_out, P7_out]))))))))
      | _ \<Rightarrow> Inl ValueError)"

section \<open>BiFPN\<close>

record BiFPN =
  blocks :: "BiFPNBlock list"

text \<open>The loop \<^verbatim>\<open>for block in self.blocks: x = block(x)\<close>.\<close>

fun run_blocks :: "image_resize \<Rightarrow> BiFPNBlock list \<Rightarrow> tensor list \<Rightarrow> py_error + tensor list" where
  "run_blocks tf_image_resize [] x = Inr x"
| "run_blocks tf_image_resize (block # rest) x =
     (case BiFPNBlock_call tf_image_resize block x of
        Inl e \<Rightarrow> Inl e
      | Inr x' \<Rightarrow> run_blocks tf_image_resize rest x')"

definition BiFPN_call :: "image_resize \<Rightarrow> BiFPN \<Rightarrow> tensor list \<Rightarrow> py_error + tensor list" where
  "BiFPN_call tf_image_resize self inputs = run_blocks tf_image_resize (blocks self) inputs"

section \<open>Construction\<close>

text \<open>
  Calling a Python function binds the arguments to the parameters of its signature:
  the positional arguments to the first parameters in order, each keyword argument to
  the parameter of that name or, when the signature ends in \<^verbatim>\<open>**kwargs\<close>, to nothing
  named. \<^verbatim>\<open>TypeError\<close> is raised for too many positional arguments, a parameter
  given twice, an unexpected keyword argument, and a parameter without default that
  was not given.
\<close>

record signature =
  required :: "string list"
  optional :: "string list"
  var_kw :: bool

definition bind_args ::
  "signature \<Rightarrow> int list \<Rightarrow> (string \<times> int) list \<Rightarrow> py_error + (string \<times> int) list" where
  "bind_args sig args kwargs =
     (let params = required sig @ optional sig;
          positional = zip params args
      in if length params < length args then Inl TypeError
         else if list_ex (\<lambda>kv. fst kv \<in> set (map fst positional)) kwargs then Inl TypeError
         else if \<not> var_kw sig \<and> list_ex (\<lambda>kv. fst kv \<notin> set params) kwargs then Inl TypeError
         else if list_ex (\<lambda>p. p \<notin> set (map fst positional) \<and> p \<notin> set (map fst kwargs))
                   (required sig)
           then Inl TypeError
         else Inr (positional @ kwargs))"

text \<open>
  What the module uses of Keras and TensorFlow when it builds its layers: the
  signatures of the two convolution classes with what their initialisers do with the
  bound arguments, the batch normalisation layer that \<^verbatim>\<open>BatchNormalization()\<close>
  returns, and the values that \<^verbatim>\<open>tf.random_normal_initializer()\<close> draws for a vector
  of a given length. They are parameters of the model.
\<close>

record keras =
  Conv2D_sig :: signature
  Conv2D_init :: "(string \<times> int) list \<Rightarrow> py_error + layer"
  SeparableConv2D_sig :: signature
  SeparableConv2D_init :: "(string \<times> int) list \<Rightarrow> py_error + layer"
  BatchNormalization_new :: layer
  random_normal :: "nat \<Rightarrow> real list"

definition new_layer ::
  "signature \<Rightarrow> ((string \<times> int) list \<Rightarrow> py_error + layer) \<Rightarrow> int list \<Rightarrow> (string \<times> int) list
     \<Rightarrow> py_error + layer" where
  "new_layer sig init args kwargs = bind_e (bind_args sig args kwargs) init"

text \<open>
  Assigning a layer to an attribute of a \<^verbatim>\<open>tf.keras.Model\<close>: Keras raises
  \<^verbatim>\<open>RuntimeError\<close> when the base class initialiser has not run.
\<close>

definition Model_setattr :: "bool \<Rightarrow> py_error + unit" where
  "Model_setattr base_initialized = (if base_initialized then Inr () else Inl RuntimeError)"

text \<open>
  \<^verbatim>\<open>Resize.__init__(features, separable)\<close>: it does not call \<^verbatim>\<open>super().__init__()\<close>,
  and it passes \<^verbatim>\<open>kernel=1\<close> to the convolution class.
\<close>

definition Resize_init :: "keras \<Rightarrow> int \<Rightarrow> bool \<Rightarrow> py_error + Resize" where
  "Resize_init k features separable =
     bind_e
       (if separable
        then new_layer (SeparableConv2D_sig k) (SeparableConv2D_init k) [features] [(''kernel'', 1)]
        else new_layer (Conv2D_sig k) (Conv2D_init k) [features] [(''kernel'', 1)])
       (\<lambda>layer. bind_e (Model_setattr False) (\<lambda>_. Inr \<lparr>pixel_wise = layer\<rparr>))"

text \<open>
  \<^verbatim>\<open>FastFusion.__init__(size, features)\<close>: the base class initialiser runs first, so
  the assignments to attributes succeed; the statements that can raise are the two
  constructor calls.
\<close>

definition FastFusion_init :: "keras \<Rightarrow> nat \<Rightarrow> int \<Rightarrow> py_error + FastFusion" where
  "FastFusion_init k sz features =
     bind_e (new_layer (SeparableConv2D_sig k) (SeparableConv2D_init k) [features]
               [(''kernel_size'', 1)]) (\<lambda>conv_layer.
     bind_e (Resize_init k features False) (\<lambda>resize_model.
     Inr \<lparr>size_ff = sz, w = random_normal k sz, conv = conv_layer,
          bn = BatchNormalization_new k, resize = resize_model\<rparr>))"

definition BiFPNBlock_init :: "keras \<Rightarrow> int \<Rightarrow> py_error + BiFPNBlock" where
  "BiFPNBlock_init k features =
     bind_e (FastFusion_init k 2 features) (\<lambda>u_6_td.
     bind_e (FastFusion_init k 2 features) (\<lambda>u_5_td.
     bind_e (FastFusion_init k 2 features) (\<lambda>u_4_td.
     bind_e (FastFusion_init k 2 features) (\<lambda>u_7_out.
     bind_e (FastFusion_init k 3 features) (\<lambda>u_6_out.
     bind_e (FastFusion_init k 3 features) (\<lambda>u_5_out.
     bind_e (FastFusion_init k 3 features) (\<lambda>u_4_out.
     bind_e (FastFusion_init k 2 features) (\<lambda>u_3_out.
     Inr \<lparr>ff_6_td = u_6_td, ff_5_td = u_5_td, ff_4_td = u_4_td, ff_7_out = u_7_out,
          ff_6_out = u_6_out, ff_5_out = u_5_out, ff_4_out = u_4_out,
          ff_3_out = u_3_out\<rparr>))))))))"

text \<open>
  \<^verbatim>\<open>BiFPN.__init__(features, n_blocks)\<close>: the list comprehension over
  \<^verbatim>\<open>range(n_blocks)\<close>, which is empty for \<^verbatim>\<open>n_blocks <= 0\<close>.
\<close>

definition BiFPN_init :: "keras \<Rightarrow> int \<Rightarrow> int \<Rightarrow> py_error + BiFPN" where
  "BiFPN_init k features n_blocks =
     bind_e (map_e (\<lambda>i. BiFPNBlock_init k features) [0..<nat n_blocks])
       (\<lambda>bs. Inr \<lparr>blocks = bs\<rparr>)"

section \<open>What the library is assumed to do\<close>

text \<open>
  \<^verbatim>\<open>tf.image.resize\<close> keeps batch and channels of a rank-4 tensor and gives it the
  requested height and width.
\<close>

definition resize_contract :: "image_resize \<Rightarrow> bool" where
  "resize_contract rs =
     (\<forall>x b h wd c H W. shape x = [b, h, wd, c] \<longrightarrow>
        (\<exists>y. rs x [H, W] = Inr y \<and> shape y = [b, H, W, c]))"

text \<open>
  A convolution with kernel size 1 and \<open>features\<close> filters keeps batch, height and
  width of a rank-4 tensor and gives it \<open>features\<close> channels.
\<close>

definition pointwise_conv :: "nat \<Rightarrow> layer \<Rightarrow> bool" where
  "pointwise_conv features L =
     (\<forall>x b h wd c. shape x = [b, h, wd, c] \<longrightarrow>
        (\<exists>y. L x = Inr y \<and> shape y = [b, h, wd, features]))"

text \<open>A layer that keeps height and width of whatever it returns.\<close>

definition hw :: "tensor \<Rightarrow> nat list" where
  "hw t = take 2 (drop 1 (shape t))"

text \<open>Batch normalisation returns a tensor of the shape it is given.\<close>

definition keeps_shape :: "layer \<Rightarrow> bool" where
  "keeps_shape L = (\<forall>x. \<exists>y. L x = Inr y \<and> shape y = shape x)"

text \<open>
  A feature map of batch size \<open>b\<close> with \<open>c\<close> channels, and a valid pyramid: five
  feature maps of one batch size, each with \<open>features\<close> channels.
\<close>

definition feature_map :: "nat \<Rightarrow> nat \<Rightarrow> tensor \<Rightarrow> bool" where
  "feature_map b c t = (length (shape t) = 4 \<and> shape t ! 0 = b \<and> shape t ! 3 = c)"

definition valid_pyramid :: "nat \<Rightarrow> nat \<Rightarrow> tensor list \<Rightarrow> bool" where
  "valid_pyramid b features ps = (length ps = 5 \<and> list_all (feature_map b features) ps)"

text \<open>
  A unit as \<^verbatim>\<open>FastFusion(n, features)\<close> is meant to build it: \<open>n\<close> weights, a
  convolution and a resize projection with \<open>features\<close> filters; and a block as
  \<^verbatim>\<open>BiFPNBlock(features)\<close> is meant to build it.
\<close>

definition unit_ok :: "nat \<Rightarrow> nat \<Rightarrow> FastFusion \<Rightarrow> bool" where
  "unit_ok n features self =
     (size_ff self = n \<and> length (w self) = n \<and> pointwise_conv features (conv self)
      \<and> keeps_shape (bn self) \<and> pointwise_conv features (pixel_wise (resize self)))"

definition block_ok :: "nat \<Rightarrow> BiFPNBlock \<Rightarrow> bool" where
  "block_ok features self =
     (unit_ok 2 features (ff_6_td self) \<and> unit_ok 2 features (ff_5_td self)
      \<and> unit_ok 2 features (ff_4_td self) \<and> unit_ok 2 features (ff_7_out self)
      \<and> unit_ok 3 features (ff_6_out self) \<and> unit_ok 3 features (ff_5_out self)
      \<and> unit_ok 3 features (ff_4_out self) \<and> unit_ok 2 features (ff_3_out self))"

text \<open>\<^verbatim>\<open>kernel_size\<close> is a parameter without default, and not the first one.\<close>

definition kernel_size_required :: "signature \<Rightarrow> bool" where
  "kernel_size_required sig =
     (''kernel_size'' \<in> set (required sig) \<and> hd (required sig) \<noteq> ''kernel_size'')"

section \<open>A small instance of the library\<close>

text \<open>
  The signatures are those of \<^verbatim>\<open>tf.keras.layers.Conv2D\<close> and
  \<^verbatim>\<open>tf.keras.layers.SeparableConv2D\<close>. The layers and the resize are stand-ins with the
  right shapes: the resize fills the target with the first value of its input, the
  convolution fills each output with the sum of its input.
\<close>

definition demo_Conv2D_sig :: signature where
  "demo_Conv2D_sig =
     \<lparr>required = [''filters'', ''kernel_size''],
      optional = [''strides'', ''padding'', ''data_format'', ''dilation_rate'', ''groups'',
        ''activation'', ''use_bias'', ''kernel_initializer'', ''bias_initializer'',
        ''kernel_regularizer'', ''bias_regularizer'', ''activity_regularizer'',
        ''kernel_constraint'', ''bias_constraint''],
      var_kw = True\<rparr>"

definition demo_SeparableConv2D_sig :: signature where
  "demo_SeparableConv2D_sig =
     \<lparr>required = [''filters'', ''kernel_size''],
      optional = [''strides'', ''padding'', ''data_format'', ''dilation_rate'',
        ''depth_multiplier'', ''activation'', ''use_bias'', ''depthwise_initializer'',
        ''pointwise_initializer'', ''bias_initializer'', ''depthwise_regularizer'',
        ''pointwise_regularizer'', ''bias_regularizer'', ''activity_regularizer'',
        ''depthwise_constraint'', ''pointwise_constraint'', ''bias_constraint''],
      var_kw = True\<rparr>"

definition demo_conv :: "nat \<Rightarrow> layer" where
  "demo_conv features x =
     (case shape x of
        [b, h, wd, c] \<Rightarrow>
          Inr \<lparr>shape = [b, h, wd, features],
               vals = replicate (b * h * wd * features) (sum_list (vals x))\<rparr>
      | _ \<Rightarrow> Inl InvalidArgumentError)"

definition demo_conv_init :: "(string \<times> int) list \<Rightarrow> py_error + layer" where
  "demo_conv_init bound =
     (case map_of bound ''filters'' of
        None \<Rightarrow> Inl TypeError
      | Some f \<Rightarrow> if f \<le> 0 then Inl ValueError else Inr (demo_conv (nat f)))"

definition demo_resize :: image_resize where
  "demo_resize images dims =
     (case (shape images, dims) of
        ([b, h, wd, c], [H, W]) \<Rightarrow>
          Inr \<lparr>shape = [b, H, W, c],
               vals = replicate (b * H * W * c) (case vals images of [] \<Rightarrow> 0 | v # _ \<Rightarrow> v)\<rparr>
      | _ \<Rightarrow> Inl InvalidArgumentError)"

definition demo_keras :: keras where
  "demo_keras =
     \<lparr>Conv2D_sig = demo_Conv2D_sig, Conv2D_init = demo_conv_init,
      SeparableConv2D_sig = demo_SeparableConv2D_sig, SeparableConv2D_init = demo_conv_init,
      BatchNormalization_new = Inr, random_normal = (\<lambda>n. replicate n 0)\<rparr>"

text \<open>Feature maps and units for running the calls on.\<close>

definition demo_map :: "nat \<Rightarrow> nat \<Rightarrow> real \<Rightarrow> tensor" where
  "demo_map h wd v = \<lparr>shape = [1, h, wd, 1], vals = replicate (h * wd) v\<rparr>"

definition demo_unit :: "real list \<Rightarrow> FastFusion" where
  "demo_unit ws =
     \<lparr>size_ff = length ws, w = ws, conv = demo_conv 1, bn = Inr,
      resize = \<lparr>pixel_wise = demo_conv 1\<rparr>\<rparr>"

definition demo_block :: BiFPNBlock where
  "demo_block =
     \<lparr>ff_6_td = demo_unit [1, 1], ff_5_td = demo_unit [1, 0], ff_4_td = demo_unit [0, 1],
      ff_7_out = demo_unit [1, 2], ff_6_out = demo_unit [1, 1, 1],
      ff_5_out = demo_unit [1, 0, 1], ff_4_out = demo_unit [0, 0, 0],
      ff_3_out = demo_unit [-1, 1]\<rparr>"

definition demo_pyramid :: "tensor list" where
  "demo_pyramid =
     [demo_map 2 2 1, demo_map 2 1 2, demo_map 1 1 3, demo_map 1 1 4, demo_map 1 1 5]"

section \<open>What the specification says a fusion computes\<close>




section \<open>Sequencing and lists\<close>


lemma map_e_cong: "(\<And>x. x \<in> set xs \<Longrightarrow> f x = g x) \<Longrightarrow> map_e f xs = map_e g xs"
  by (induction xs) (auto split: sum.splits)

lemma map_e_Inr: "(\<And>x. x \<in> set xs \<Longrightarrow> f x = Inr (g x)) \<Longrightarrow> map_e f xs = Inr (map g xs)"
  by (induction xs) simp_all

lemma map_nth_map2:
  assumes "length as = n" and "length xs = n"
  shows "map (\<lambda>i. f (as ! i) (xs ! i)) [0..<n] = map2 f as xs"
  using assms by (intro nth_equalityI) simp_all

lemma update_last: "inputs \<noteq> [] \<Longrightarrow> inputs[length inputs - 1 := t] = butlast inputs @ [t]"
  by (induction inputs) (auto split: nat.splits)

section \<open>The normalisation sum\<close>




section \<open>Resize\<close>

lemma Resize_call_ok:
  assumes "resize_contract rs" and "pointwise_conv features (pixel_wise self)"
    and "shape images = [b, h, wd, c]" and "target_dim = [b', H, W, c']"
  shows "\<exists>x y. rs images [H, W] = Inr x \<and> pixel_wise self x = Inr y
           \<and> Resize_call rs self images target_dim = Inr y
           \<and> shape y = [b, H, W, features]"
proof -
  from assms(1,3) obtain x where x: "rs images [H, W] = Inr x" "shape x = [b, H, W, c]"
    unfolding resize_contract_def by blast
  from assms(2) x(2) obtain y where y: "pixel_wise self x = Inr y" "shape y = [b, H, W, features]"
    unfolding pointwise_conv_def by blast
  have "Resize_call rs self images target_dim = Inr y"
    using x(1) y(1) assms(4) by (simp add: Resize_call_def bind_e_def)
  with x y show ?thesis by blast
qed

lemma demo_resize_contract: "resize_contract demo_resize"
  by (simp add: resize_contract_def demo_resize_def)

lemma demo_conv_pointwise: "pointwise_conv features (demo_conv features)"
  by (simp add: pointwise_conv_def demo_conv_def)

text \<open>
  Claim C5. With \<^verbatim>\<open>tf.image.resize\<close> and the 1x1 convolution doing what the library
  documents, \<^verbatim>\<open>Resize.call\<close> on any feature map and the shape of a reference map of
  height \<open>H\<close> and width \<open>W\<close> returns a map of height \<open>H\<close>, width \<open>W\<close> and \<open>features\<close>
  channels; the map it returns is the convolution applied to the output of the
  spatial resize, so the resize comes first and the channel projection second.
\<close>

theorem Resize_call_shape:
  assumes "resize_contract rs" and "pointwise_conv features (pixel_wise self)"
    and "shape images = [b, h, wd, c]" and "shape reference = [b', H, W, c']"
  shows "\<exists>x y. rs images [H, W] = Inr x \<and> pixel_wise self x = Inr y
           \<and> Resize_call rs self images (shape reference) = Inr y
           \<and> shape y = [b, H, W, features]"
  using assms by (rule Resize_call_ok)

theorem Resize_call_shape_witness:
  "resize_contract demo_resize \<and> pointwise_conv 1 (pixel_wise \<lparr>pixel_wise = demo_conv 1\<rparr>)
   \<and> shape (demo_map 1 1 5) = [1, 1, 1, 1] \<and> shape (demo_map 2 2 4) = [1, 2, 2, 1]
   \<and> (\<exists>x y. demo_resize (demo_map 1 1 5) [2, 2] = Inr x
         \<and> pixel_wise \<lparr>pixel_wise = demo_conv 1\<rparr> x = Inr y
         \<and> Resize_call demo_resize \<lparr>pixel_wise = demo_conv 1\<rparr> (demo_map 1 1 5)
              (shape (demo_map 2 2 4)) = Inr y
         \<and> shape y = [1, 2, 2, 1])"
proof -
  have a: "resize_contract demo_resize" by (rule demo_resize_contract)
  have b: "pointwise_conv 1 (pixel_wise \<lparr>pixel_wise = demo_conv 1\<rparr>)"
    by (simp add: demo_conv_pointwise)
  have c: "shape (demo_map 1 1 5) = [1, 1, 1, 1]" by (simp add: demo_map_def)
  have d: "shape (demo_map 2 2 4) = [1, 2, 2, 1]" by (simp add: demo_map_def)
  from Resize_call_shape [OF a b c d] a b c d show ?thesis by blast
qed

section \<open>The list a fusion is called on\<close>

text \<open>
  Claim C7, as the code has it. \<^verbatim>\<open>FastFusion.call\<close> changes no feature map, and it
  leaves the caller's list as it was except for the last entry: when the resize
  succeeds, the last entry of the list is the resized map afterwards. An empty list
  and a list whose last map cannot be resized are left as they were.
\<close>

theorem FastFusion_call_list:
  "fst (FastFusion_call rs self inputs)
     = (if inputs = [] then []
        else case Resize_call rs (resize self) (last inputs) (shape (inputs ! 0)) of
               Inl e \<Rightarrow> inputs
             | Inr r \<Rightarrow> butlast inputs @ [r])"
proof (cases "inputs = []")
  case True
  then show ?thesis by (simp add: FastFusion_call_def)
next
  case False
  then have "inputs[length inputs - 1 := r] = butlast inputs @ [r]" for r
    by (rule update_last)
  with False show ?thesis
    by (simp add: FastFusion_call_def Let_def split: sum.splits)
qed

text \<open>
  Claim C7 as stated fails: after the call on the list of a 2x2 map and a 1x1 map, the
  second entry of the list is a 2x2 map.
\<close>

theorem FastFusion_call_list_counterexample:
  "fst (FastFusion_call demo_resize (demo_unit [1, 1]) [demo_map 2 2 4, demo_map 1 1 5])
     \<noteq> [demo_map 2 2 4, demo_map 1 1 5]"
  by (simp add: FastFusion_call_def Resize_call_def demo_resize_def demo_map_def
      demo_unit_def demo_conv_def bind_e_def Let_def)

lemma weighted_take: "i < n \<Longrightarrow> weighted ws (take n xs) i = weighted ws xs i"
  by (auto simp add: weighted_def)

lemma fuse_take: "fuse self (take (size_ff self) xs) = fuse self xs"
proof -
  have "map_e (weighted (map relu (w self)) (take (size_ff self) xs)) [0..<size_ff self]
      = map_e (weighted (map relu (w self)) xs) [0..<size_ff self]"
    by (rule map_e_cong) (simp add: weighted_take)
  then show ?thesis by (simp add: fuse_def tf_map_fn_def)
qed

text \<open>
  Claim C9, as the code has it. For a unit of size \<open>N\<close> called on more than \<open>N\<close> maps,
  the length of the list is not checked. The last map is resized, and an exception of
  that resize is the result. Otherwise the result is that of the weighted sum,
  convolution, normalisation and activation on the first \<open>N\<close> maps as they were
  supplied: a value or the exception these raise. The maps at positions \<open>N\<close> and
  beyond do not enter it.
\<close>

theorem FastFusion_call_extra_inputs:
  assumes "size_ff self < length inputs"
  shows "snd (FastFusion_call rs self inputs)
           = bind_e (Resize_call rs (resize self) (last inputs) (shape (inputs ! 0)))
               (\<lambda>r. fuse self (take (size_ff self) inputs))"
proof -
  from assms have ne: "inputs \<noteq> []" by auto
  have "fuse self (inputs[length inputs - 1 := r]) = fuse self (take (size_ff self) inputs)" for r
  proof -
    from assms
    have "take (size_ff self) (inputs[length inputs - 1 := r]) = take (size_ff self) inputs"
      by simp
    then show ?thesis using fuse_take [of self "inputs[length inputs - 1 := r]"] by simp
  qed
  with ne show ?thesis
    by (simp add: FastFusion_call_def bind_e_def Let_def split: sum.splits)
qed

theorem FastFusion_call_extra_inputs_witness:
  "size_ff (demo_unit [1, 1]) < length [demo_map 1 1 4, demo_map 1 1 5, demo_map 2 2 7]
   \<and> snd (FastFusion_call demo_resize (demo_unit [1, 1])
            [demo_map 1 1 4, demo_map 1 1 5, demo_map 2 2 7])
       = fuse (demo_unit [1, 1]) [demo_map 1 1 4, demo_map 1 1 5]"
proof -
  have a: "size_ff (demo_unit [1, 1]) < length [demo_map 1 1 4, demo_map 1 1 5, demo_map 2 2 7]"
    by (simp add: demo_unit_def)
  have b: "Resize_call demo_resize (resize (demo_unit [1, 1])) (demo_map 2 2 7)
             (shape (demo_map 1 1 4))
     = Inr \<lparr>shape = [1, 1, 1, 1], vals = [7]\<rparr>"
    by code_simp
  show ?thesis
    using FastFusion_call_extra_inputs [OF a, of demo_resize] a b
    by (simp add: bind_e_def demo_unit_def)
qed

text \<open>
  Claim C9 as stated fails: a unit of size 2 called on three maps of which the first
  two differ in shape raises, since the weighted maps cannot be stacked.
\<close>

theorem FastFusion_call_extra_inputs_counterexample:
  "size_ff (demo_unit [1, 1]) < length [demo_map 2 2 4, demo_map 1 1 5, demo_map 1 1 7]
   \<and> snd (FastFusion_call demo_resize (demo_unit [1, 1])
            [demo_map 2 2 4, demo_map 1 1 5, demo_map 1 1 7]) = Inl InvalidArgumentError"
  by (simp add: FastFusion_call_def Resize_call_def demo_resize_def demo_map_def
      demo_unit_def demo_conv_def bind_e_def Let_def fuse_def tf_map_fn_def weighted_def
      upt_rec scalar_mul_def relu_def)

section \<open>The fusion formula\<close>

lemma weighted_all:
  assumes "length ws = n" and "length xs = n"
  shows "map_e (weighted ws xs) [0..<n] = Inr (map2 scalar_mul ws xs)"
proof -
  have "map_e (weighted ws xs) [0..<n] = Inr (map (\<lambda>i. scalar_mul (ws ! i) (xs ! i)) [0..<n])"
    using assms by (intro map_e_Inr) (simp add: weighted_def)
  then show ?thesis using map_nth_map2 [OF assms, of scalar_mul] by simp
qed



lemma shape_foldl_add_t: "shape (foldl add_t t ts) = shape t"
  by (induction ts arbitrary: t) (simp_all add: add_t_def)









section \<open>The dataflow of a block\<close>

text \<open>
  Claim C1. For a block with the eight units \<open>u_6_td\<close>, ..., \<open>u_3_out\<close> (eight separate
  fields, each used for exactly one fusion) and the pyramid \<open>P3, ..., P7\<close>, the call
  returns \<open>(P3_out, P4_out, P5_out, P6_out, P7_out)\<close> exactly when these are the
  results of the specification's dataflow: first the intermediate maps \<open>P6_td\<close>,
  \<open>P5_td\<close>, \<open>P4_td\<close> from the top down (none for \<open>P3\<close> and \<open>P7\<close>), then the outputs
  from \<open>P3_out\<close> up to \<open>P7_out\<close>.
\<close>

theorem BiFPNBlock_call_dataflow:
  "BiFPNBlock_call rs
       \<lparr>ff_6_td = u_6_td, ff_5_td = u_5_td, ff_4_td = u_4_td, ff_7_out = u_7_out,
        ff_6_out = u_6_out, ff_5_out = u_5_out, ff_4_out = u_4_out, ff_3_out = u_3_out\<rparr>
       [P3, P4, P5, P6, P7]
     = Inr [P3_out, P4_out, P5_out, P6_out, P7_out]
   \<longleftrightarrow>
   (\<exists>P6_td P5_td P4_td.
      FastFusion_apply rs u_6_td [P6, P7] = Inr P6_td
    \<and> FastFusion_apply rs u_5_td [P5, P6_td] = Inr P5_td
    \<and> FastFusion_apply rs u_4_td [P4, P5_td] = Inr P4_td
    \<and> FastFusion_apply rs u_3_out [P3, P4_td] = Inr P3_out
    \<and> FastFusion_apply rs u_4_out [P4, P4_td, P3_out] = Inr P4_out
    \<and> FastFusion_apply rs u_5_out [P5, P5_td, P4_out] = Inr P5_out
    \<and> FastFusion_apply rs u_6_out [P6, P6_td, P5_out] = Inr P6_out
    \<and> FastFusion_apply rs u_7_out [P7, P6_td] = Inr P7_out)"
  by (auto simp add: BiFPNBlock_call_def bind_e_def split: sum.splits)

theorem BiFPNBlock_call_dataflow_witness:
  "BiFPNBlock_call demo_resize
       \<lparr>ff_6_td = demo_unit [1, 1], ff_5_td = demo_unit [1, 0], ff_4_td = demo_unit [0, 1],
        ff_7_out = demo_unit [1, 2], ff_6_out = demo_unit [1, 1, 1],
        ff_5_out = demo_unit [1, 0, 1], ff_4_out = demo_unit [0, 0, 0],
        ff_3_out = demo_unit [-1, 1]\<rparr>
       [demo_map 2 2 1, demo_map 2 1 2, demo_map 1 1 3, demo_map 1 1 4, demo_map 1 1 5]
     = Inr [\<lparr>shape = [1, 2, 2, 1],
             vals = [192000000000000000 / 1000030000300001,
                     192000000000000000 / 1000030000300001,
                     192000000000000000 / 1000030000300001,
                     192000000000000000 / 1000030000300001]\<rparr>,
            \<lparr>shape = [1, 2, 1, 1], vals = [0, 0]\<rparr>,
            \<lparr>shape = [1, 1, 1, 1], vals = [100000 / 66667]\<rparr>,
            \<lparr>shape = [1, 1, 1, 1], vals = [66666800000 / 20000166667]\<rparr>,
            \<lparr>shape = [1, 1, 1, 1], vals = [7179500000 / 1538474359]\<rparr>]"
proof -
  define P6_td where "P6_td = \<lparr>shape = [1, 1, 1, 1], vals = [300000 / 66667]\<rparr>"
  define P5_td where "P5_td = \<lparr>shape = [1, 1, 1, 1], vals = [300000 / 100001]\<rparr>"
  define P4_td where
    "P4_td = \<lparr>shape = [1, 2, 1, 1], vals = [120000000000 / 10000200001, 120000000000 / 10000200001]\<rparr>"
  define P3_out where
    "P3_out = \<lparr>shape = [1, 2, 2, 1],
               vals = [192000000000000000 / 1000030000300001,
                       192000000000000000 / 1000030000300001,
                       192000000000000000 / 1000030000300001,
                       192000000000000000 / 1000030000300001]\<rparr>"
  define P4_out where "P4_out = \<lparr>shape = [1, 2, 1, 1], vals = [0, 0]\<rparr>"
  define P5_out where "P5_out = \<lparr>shape = [1, 1, 1, 1], vals = [100000 / 66667]\<rparr>"
  have t6: "FastFusion_apply demo_resize (demo_unit [1, 1]) [demo_map 1 1 4, demo_map 1 1 5]
              = Inr P6_td"
    unfolding P6_td_def by code_simp
  have t5: "FastFusion_apply demo_resize (demo_unit [1, 0]) [demo_map 1 1 3, P6_td] = Inr P5_td"
    unfolding P6_td_def P5_td_def by code_simp
  have t4: "FastFusion_apply demo_resize (demo_unit [0, 1]) [demo_map 2 1 2, P5_td] = Inr P4_td"
    unfolding P5_td_def P4_td_def by code_simp
  have o3: "FastFusion_apply demo_resize (demo_unit [-1, 1]) [demo_map 2 2 1, P4_td] = Inr P3_out"
    unfolding P4_td_def P3_out_def by code_simp
  have o4: "FastFusion_apply demo_resize (demo_unit [0, 0, 0]) [demo_map 2 1 2, P4_td, P3_out]
              = Inr P4_out"
    unfolding P4_td_def P3_out_def P4_out_def by code_simp
  have o5: "FastFusion_apply demo_resize (demo_unit [1, 0, 1]) [demo_map 1 1 3, P5_td, P4_out]
              = Inr P5_out"
    unfolding P5_td_def P4_out_def P5_out_def by code_simp
  have o6: "FastFusion_apply demo_resize (demo_unit [1, 1, 1]) [demo_map 1 1 4, P6_td, P5_out]
              = Inr \<lparr>shape = [1, 1, 1, 1], vals = [66666800000 / 20000166667]\<rparr>"
    unfolding P6_td_def P5_out_def by code_simp
  have o7: "FastFusion_apply demo_resize (demo_unit [1, 2]) [demo_map 1 1 5, P6_td]
              = Inr \<lparr>shape = [1, 1, 1, 1], vals = [7179500000 / 1538474359]\<rparr>"
    unfolding P6_td_def by code_simp
  from t6 t5 t4 o3 o4 o5 o6 o7
  show ?thesis
    unfolding P3_out_def [symmetric] P4_out_def [symmetric] P5_out_def [symmetric]
    by (intro BiFPNBlock_call_dataflow [THEN iffD2]) blast
qed

section \<open>The shapes a block returns\<close>

lemma feature_map_shape:
  "feature_map b c t \<longleftrightarrow> (\<exists>h wd. shape t = [b, h, wd, c])"
proof
  assume a: "feature_map b c t"
  then have "length (shape t) = 4" by (simp add: feature_map_def)
  then obtain b' h wd c' where s: "shape t = [b', h, wd, c']"
    by (auto simp: length_Suc_conv numeral_eq_Suc)
  with a show "\<exists>h wd. shape t = [b, h, wd, c]" by (auto simp: feature_map_def)
next
  assume "\<exists>h wd. shape t = [b, h, wd, c]"
  then show "feature_map b c t" by (auto simp: feature_map_def)
qed

lemma fuse_ok:
  assumes u: "unit_ok n features self" and len: "length (x # rest) = n"
    and x: "shape x = [b, h, wd, features]"
    and same: "list_all (\<lambda>u. shape u = shape x) rest"
  shows "\<exists>y. fuse self (x # rest) = Inr y \<and> shape y = shape x"
proof -
  from u have sz: "size_ff self = n" and lw: "length (w self) = n"
    and cv: "pointwise_conv features (conv self)" and b: "keeps_shape (bn self)"
    by (simp_all add: unit_ok_def)
  from lw len obtain a as where ws: "map relu (w self) = a # as"
    by (cases "map relu (w self)") auto
  have m: "map_e (weighted (map relu (w self)) (x # rest)) [0..<size_ff self]
             = Inr (map2 scalar_mul (map relu (w self)) (x # rest))"
    using sz lw len by (intro weighted_all) simp_all
  have st: "list_all (\<lambda>u. shape u = shape (scalar_mul a x)) (map2 scalar_mul as rest)"
    using same by (auto simp: list_all_iff scalar_mul_def dest!: set_zip_rightD)
  have t: "tf_map_fn (weighted (map relu (w self)) (x # rest)) [0..<size_ff self]
             = Inr (scalar_mul a x # map2 scalar_mul as rest)"
  proof -
    from m ws have "map_e (weighted (a # as) (x # rest)) [0..<size_ff self]
             = Inr (scalar_mul a x # map2 scalar_mul as rest)"
      by simp
    with st show ?thesis by (simp add: tf_map_fn_def bind_e_def ws)
  qed
  define s where "s = scalar_div (foldl add_t (scalar_mul a x) (map2 scalar_mul as rest)) (w_sum self)"
  have ss: "shape s = [b, h, wd, features]"
    by (simp add: s_def scalar_div_def shape_foldl_add_t scalar_mul_def x)
  from cv ss obtain c where c: "conv self s = Inr c" "shape c = [b, h, wd, features]"
    unfolding pointwise_conv_def by blast
  from b obtain d where d: "bn self c = Inr d" "shape d = shape c"
    unfolding keeps_shape_def by blast
  have "fuse self (x # rest) = Inr (relu_t d)"
    using c(1) d(1)
    by (simp add: fuse_def t bind_e_def transpose_reduce_sum_def scalar_mul_def x s_def)
  moreover have "shape (relu_t d) = shape x" by (simp add: relu_t_def d c x)
  ultimately show ?thesis by blast
qed

lemma FastFusion_apply_2:
  assumes rc: "resize_contract rs" and u: "unit_ok 2 features self"
    and x: "feature_map b features x" and y: "feature_map b features y"
  shows "\<exists>z. FastFusion_apply rs self [x, y] = Inr z \<and> shape z = shape x"
proof -
  from x obtain h wd where sx: "shape x = [b, h, wd, features]" by (auto simp: feature_map_shape)
  from y obtain h' wd' where sy: "shape y = [b, h', wd', features]" by (auto simp: feature_map_shape)
  from u have pw: "pointwise_conv features (pixel_wise (resize self))" by (simp add: unit_ok_def)
  from Resize_call_ok [OF rc pw sy sx] obtain r
    where r: "Resize_call rs (resize self) y (shape x) = Inr r" "shape r = [b, h, wd, features]"
    by auto
  have "\<exists>z. fuse self [x, r] = Inr z \<and> shape z = shape x"
    using u sx r(2) by (intro fuse_ok [where n = 2 and b = b and h = h and wd = wd]) simp_all
  then show ?thesis using r(1)
    by (simp add: FastFusion_apply_def FastFusion_call_def Let_def)
qed

lemma FastFusion_apply_3:
  assumes rc: "resize_contract rs" and u: "unit_ok 3 features self"
    and x: "feature_map b features x" and m: "shape m = shape x"
    and y: "feature_map b features y"
  shows "\<exists>z. FastFusion_apply rs self [x, m, y] = Inr z \<and> shape z = shape x"
proof -
  from x obtain h wd where sx: "shape x = [b, h, wd, features]" by (auto simp: feature_map_shape)
  from y obtain h' wd' where sy: "shape y = [b, h', wd', features]" by (auto simp: feature_map_shape)
  from u have pw: "pointwise_conv features (pixel_wise (resize self))" by (simp add: unit_ok_def)
  from Resize_call_ok [OF rc pw sy sx] obtain r
    where r: "Resize_call rs (resize self) y (shape x) = Inr r" "shape r = [b, h, wd, features]"
    by auto
  have "\<exists>z. fuse self [x, m, r] = Inr z \<and> shape z = shape x"
    using u sx r(2) m by (intro fuse_ok [where n = 3 and b = b and h = h and wd = wd]) simp_all
  then show ?thesis using r(1)
    by (simp add: FastFusion_apply_def FastFusion_call_def Let_def)
qed

lemma feature_map_cong: "shape z = shape x \<Longrightarrow> feature_map b c x \<Longrightarrow> feature_map b c z"
  by (simp add: feature_map_def)

text \<open>
  Claim C4. With the library doing what it documents and a block built as
  \<^verbatim>\<open>BiFPNBlock(features)\<close> builds it, \<^verbatim>\<open>BiFPNBlock.call\<close> on a valid pyramid (five
  feature maps of one batch size with \<open>features\<close> channels each) returns a pyramid of
  exactly five feature maps, and the map at each level has the height and width of the
  input map at that level; the returned pyramid is valid again.
\<close>

theorem BiFPNBlock_call_shapes:
  assumes rc: "resize_contract rs" and ok: "block_ok features self"
    and v: "valid_pyramid b features inputs"
  shows "\<exists>outputs. BiFPNBlock_call rs self inputs = Inr outputs \<and> length outputs = 5
           \<and> map hw outputs = map hw inputs \<and> valid_pyramid b features outputs"
proof -
  from v obtain P3 P4 P5 P6 P7 where inp: "inputs = [P3, P4, P5, P6, P7]"
    by (auto simp: valid_pyramid_def length_Suc_conv numeral_eq_Suc)
  from v inp have f3: "feature_map b features P3" and f4: "feature_map b features P4"
    and f5: "feature_map b features P5" and f6: "feature_map b features P6"
    and f7: "feature_map b features P7"
    by (simp_all add: valid_pyramid_def)
  note u = ok [unfolded block_ok_def]
  from FastFusion_apply_2 [OF rc _ f6 f7] u obtain P6_td
    where t6: "FastFusion_apply rs (ff_6_td self) [P6, P7] = Inr P6_td" "shape P6_td = shape P6"
    by blast
  note g6 = feature_map_cong [OF t6(2) f6]
  from FastFusion_apply_2 [OF rc _ f5 g6] u obtain P5_td
    where t5: "FastFusion_apply rs (ff_5_td self) [P5, P6_td] = Inr P5_td" "shape P5_td = shape P5"
    by blast
  note g5 = feature_map_cong [OF t5(2) f5]
  from FastFusion_apply_2 [OF rc _ f4 g5] u obtain P4_td
    where t4: "FastFusion_apply rs (ff_4_td self) [P4, P5_td] = Inr P4_td" "shape P4_td = shape P4"
    by blast
  note g4 = feature_map_cong [OF t4(2) f4]
  from FastFusion_apply_2 [OF rc _ f3 g4] u obtain P3_out
    where o3: "FastFusion_apply rs (ff_3_out self) [P3, P4_td] = Inr P3_out" "shape P3_out = shape P3"
    by blast
  note h3 = feature_map_cong [OF o3(2) f3]
  from FastFusion_apply_3 [OF rc _ f4 t4(2) h3] u obtain P4_out
    where o4: "FastFusion_apply rs (ff_4_out self) [P4, P4_td, P3_out] = Inr P4_out"
      "shape P4_out = shape P4"
    by blast
  note h4 = feature_map_cong [OF o4(2) f4]
  from FastFusion_apply_3 [OF rc _ f5 t5(2) h4] u obtain P5_out
    where o5: "FastFusion_apply rs (ff_5_out self) [P5, P5_td, P4_out] = Inr P5_out"
      "shape P5_out = shape P5"
    by blast
  note h5 = feature_map_cong [OF o5(2) f5]
  from FastFusion_apply_3 [OF rc _ f6 t6(2) h5] u obtain P6_out
    where o6: "FastFusion_apply rs (ff_6_out self) [P6, P6_td, P5_out] = Inr P6_out"
      "shape P6_out = shape P6"
    by blast
  note h6 = feature_map_cong [OF o6(2) f6]
  from FastFusion_apply_2 [OF rc _ f7 g6] u obtain P7_out
    where o7: "FastFusion_apply rs (ff_7_out self) [P7, P6_td] = Inr P7_out" "shape P7_out = shape P7"
    by blast
  note h7 = feature_map_cong [OF o7(2) f7]
  have call: "BiFPNBlock_call rs self inputs = Inr [P3_out, P4_out, P5_out, P6_out, P7_out]"
    by (simp add: BiFPNBlock_call_def inp bind_e_def t6(1) t5(1) t4(1) o3(1) o4(1) o5(1) o6(1) o7(1))
  have "map hw [P3_out, P4_out, P5_out, P6_out, P7_out] = map hw inputs"
    by (simp add: hw_def inp o3(2) o4(2) o5(2) o6(2) o7(2))
  moreover have "valid_pyramid b features [P3_out, P4_out, P5_out, P6_out, P7_out]"
    using h3 h4 h5 h6 h7 by (simp add: valid_pyramid_def)
  ultimately show ?thesis using call by simp
qed

lemma demo_unit_ok: "unit_ok (length ws) 1 (demo_unit ws)"
  by (simp add: unit_ok_def demo_unit_def demo_conv_pointwise keeps_shape_def)

lemma demo_block_ok: "block_ok 1 demo_block"
proof -
  have "unit_ok 2 1 (demo_unit [a, b])" and "unit_ok 3 1 (demo_unit [a, b, c])" for a b c
    using demo_unit_ok [of "[a, b]"] demo_unit_ok [of "[a, b, c]"]
    by (simp_all add: numeral_2_eq_2 numeral_3_eq_3)
  then show ?thesis by (simp add: block_ok_def demo_block_def)
qed

theorem BiFPNBlock_call_shapes_witness:
  "resize_contract demo_resize \<and> block_ok 1 demo_block \<and> valid_pyramid 1 1 demo_pyramid
   \<and> (\<exists>outputs. BiFPNBlock_call demo_resize demo_block demo_pyramid = Inr outputs
         \<and> length outputs = 5 \<and> map hw outputs = map hw demo_pyramid
         \<and> valid_pyramid 1 1 outputs)"
proof -
  have v: "valid_pyramid 1 1 demo_pyramid"
    by (simp add: valid_pyramid_def demo_pyramid_def feature_map_def demo_map_def)
  from BiFPNBlock_call_shapes [OF demo_resize_contract demo_block_ok v]
    demo_resize_contract demo_block_ok v
  show ?thesis by blast
qed

section \<open>Stacking blocks\<close>

lemma run_blocks_append:
  "run_blocks rs (bs @ cs) x = bind_e (run_blocks rs bs x) (run_blocks rs cs)"
  by (induction bs arbitrary: x) (simp_all add: bind_e_def split: sum.splits)

lemma run_blocks_foldl:
  "bind_e acc (run_blocks rs bs)
     = foldl (\<lambda>acc block. bind_e acc (BiFPNBlock_call rs block)) acc bs"
proof (induction bs arbitrary: acc)
  case Nil
  show ?case by (simp add: bind_e_def split: sum.splits)
next
  case (Cons b bs)
  have "bind_e acc (run_blocks rs (b # bs))
          = bind_e (bind_e acc (BiFPNBlock_call rs b)) (run_blocks rs bs)"
    by (simp add: bind_e_def split: sum.splits)
  also have "\<dots> = foldl (\<lambda>acc block. bind_e acc (BiFPNBlock_call rs block))
                      (bind_e acc (BiFPNBlock_call rs b)) bs"
    by (rule Cons.IH)
  also have "\<dots> = foldl (\<lambda>acc block. bind_e acc (BiFPNBlock_call rs block)) acc (b # bs)"
    by simp
  finally show ?case .
qed

text \<open>
  Claim C6. A model of two blocks gives what the model of the first block followed by
  the model of the second gives (an exception of the first ends both). In general the
  model of the blocks \<open>bs @ cs\<close> is the model of \<open>bs\<close> followed by the model of \<open>cs\<close>,
  and \<^verbatim>\<open>BiFPN.call\<close> is the left-to-right composition of the calls of its blocks,
  each on the output of the one before it.
\<close>

theorem BiFPN_call_sequential:
  "BiFPN_call rs \<lparr>blocks = [b1, b2]\<rparr> x
     = bind_e (BiFPN_call rs \<lparr>blocks = [b1]\<rparr> x) (BiFPN_call rs \<lparr>blocks = [b2]\<rparr>)
   \<and> BiFPN_call rs \<lparr>blocks = bs @ cs\<rparr> x
     = bind_e (BiFPN_call rs \<lparr>blocks = bs\<rparr> x) (BiFPN_call rs \<lparr>blocks = cs\<rparr>)
   \<and> BiFPN_call rs self x
     = foldl (\<lambda>acc block. bind_e acc (BiFPNBlock_call rs block)) (Inr x) (blocks self)"
proof -
  have a: "BiFPN_call rs \<lparr>blocks = bs' @ cs'\<rparr> x
     = bind_e (BiFPN_call rs \<lparr>blocks = bs'\<rparr> x) (BiFPN_call rs \<lparr>blocks = cs'\<rparr>)" for bs' cs'
    using run_blocks_append [of rs bs' cs' x]
    by (simp add: BiFPN_call_def bind_e_def split: sum.splits)
  have b: "BiFPN_call rs self x
     = foldl (\<lambda>acc block. bind_e acc (BiFPNBlock_call rs block)) (Inr x) (blocks self)"
    using run_blocks_foldl [of "Inr x" rs "blocks self"]
    by (simp add: BiFPN_call_def bind_e_def)
  from a [of "[b1]" "[b2]"] a [of bs cs] b show ?thesis by simp
qed

text \<open>
  Claim C10. \<^verbatim>\<open>BiFPN(features, n_blocks=0)\<close> is built with an empty list of blocks,
  and the forward pass of a model with no blocks returns its input.
\<close>

theorem BiFPN_no_blocks_identity:
  "BiFPN_init k features 0 = Inr \<lparr>blocks = []\<rparr>
   \<and> BiFPN_call rs \<lparr>blocks = []\<rparr> x = Inr x"
  by (simp add: BiFPN_init_def BiFPN_call_def bind_e_def)

section \<open>Construction fails\<close>

lemma bind_args_kernel:
  assumes "kernel_size_required sig"
  shows "bind_args sig [features] [(''kernel'', 1)] = Inl TypeError"
proof -
  from assms obtain r rs where req: "required sig = r # rs" and r: "r \<noteq> ''kernel_size''"
    and mem: "''kernel_size'' \<in> set rs"
    by (cases "required sig") (auto simp: kernel_size_required_def)
  have "list_ex (\<lambda>p. p \<notin> set (map fst (zip (required sig @ optional sig) [features]))
          \<and> p \<notin> set (map fst [(''kernel'', 1::int)])) (required sig)"
    using req r mem by (auto simp: list_ex_iff)
  then show ?thesis
    by (simp add: bind_args_def Let_def)
qed

lemma Resize_init_isl: "isl (Resize_init k features separable)"
  by (simp add: Resize_init_def bind_e_def Model_setattr_def split: sum.splits)

lemma FastFusion_init_isl: "isl (FastFusion_init k sz features)"
  using Resize_init_isl [of k features False]
  by (auto simp add: FastFusion_init_def bind_e_def split: sum.splits)

lemma BiFPNBlock_init_isl: "isl (BiFPNBlock_init k features)"
  using FastFusion_init_isl [of k 2 features]
  by (auto simp add: BiFPNBlock_init_def bind_e_def split: sum.splits)

lemma BiFPN_init_isl:
  assumes "0 < n_blocks"
  shows "isl (BiFPN_init k features n_blocks)"
proof -
  from assms obtain m where m: "nat n_blocks = Suc m" by (cases "nat n_blocks") auto
  have "[0..<Suc m] = 0 # [1..<Suc m]" by (simp add: upt_rec)
  then show ?thesis using BiFPNBlock_init_isl [of k features] m
    by (auto simp add: BiFPN_init_def bind_e_def split: sum.splits)
qed

lemma demo_sigs:
  "kernel_size_required demo_Conv2D_sig" "kernel_size_required demo_SeparableConv2D_sig"
  by (simp_all add: kernel_size_required_def demo_Conv2D_sig_def demo_SeparableConv2D_sig_def)

text \<open>
  Claim C8, as the code has it. \<^verbatim>\<open>Resize(features, separable)\<close> never returns an
  instance: with \<^verbatim>\<open>kernel_size\<close> a parameter without default of both convolution
  classes, the call with \<^verbatim>\<open>kernel=1\<close> raises \<^verbatim>\<open>TypeError\<close>, and whatever the
  signatures are, the assignment of the layer raises because the base class
  initialiser has not run. So \<^verbatim>\<open>FastFusion(size, features)\<close> and
  \<^verbatim>\<open>BiFPNBlock(features)\<close> fail too, and \<^verbatim>\<open>BiFPN(features, n_blocks)\<close> fails when
  \<^verbatim>\<open>n_blocks\<close> is at least 1.
\<close>

theorem construction_fails:
  "isl (Resize_init k features separable)
   \<and> isl (FastFusion_init k sz features)
   \<and> isl (BiFPNBlock_init k features)
   \<and> (0 < n_blocks \<longrightarrow> isl (BiFPN_init k features n_blocks))
   \<and> (kernel_size_required (Conv2D_sig k) \<and> kernel_size_required (SeparableConv2D_sig k)
        \<longrightarrow> Resize_init k features separable = Inl TypeError)"
  using Resize_init_isl FastFusion_init_isl BiFPNBlock_init_isl BiFPN_init_isl
  by (auto simp add: Resize_init_def new_layer_def bind_args_kernel bind_e_def)

theorem construction_fails_witness:
  "(0::int) < 3
   \<and> kernel_size_required (Conv2D_sig demo_keras)
   \<and> kernel_size_required (SeparableConv2D_sig demo_keras)
   \<and> isl (Resize_init demo_keras 64 False)
   \<and> isl (FastFusion_init demo_keras 2 64)
   \<and> isl (BiFPNBlock_init demo_keras 64)
   \<and> isl (BiFPN_init demo_keras 64 3)
   \<and> Resize_init demo_keras 64 False = Inl TypeError"
  using construction_fails [of demo_keras 64 False 2 3] demo_sigs
  by (simp add: demo_keras_def)

text \<open>
  Claim C8 as stated fails for a model without blocks: \<^verbatim>\<open>BiFPN(64, n_blocks=0)\<close>
  builds no block, hence no \<^verbatim>\<open>Resize\<close>, and returns an instance.
\<close>

theorem BiFPN_init_counterexample:
  "\<not> isl (BiFPN_init demo_keras 64 0)"
  by (simp add: BiFPN_init_def bind_e_def)

end
